theory Spec2Isabelle
  imports Main "HOL-Library.Sublist"
begin

section \<open>Deployment workflows of the bookshop repository\<close>

text \<open>
  The repository documents its deployment pipeline as GitHub Actions workflows whose steps
  are bash scripts calling the AWS command line. Two generations of the pipeline are in
  the sources:
  \<^item> the design document's workflows \<open>deploy-frontend.yml\<close> and \<open>deploy-backend.yml\<close>,
    which deploy to one configured instance with a backup step, a deploy step, a health
    check and a rollback step;
  \<^item> the workflows explained in \<open>WORKFLOW-DOCUMENTATION.md\<close>, which publish to S3 under a
    timestamp and under \<open>latest\<close>, resolve the InService instances of an Auto Scaling
    group and deploy to the whole group with one SSM command.
  Each step script is embedded as a function on an explicit world; what the AWS services
  answer during a run is an input record of the run. A step script runs under
  \<open>bash -e\<close>: the first failing command ends the step with a failure. The calls
  \<open>aws ssm send-command\<close> and \<open>aws autoscaling describe-auto-scaling-groups\<close> are
  taken to return their answer; a command that does not reach an instance shows in the
  status of its invocation.
\<close>

subsection \<open>Statuses, job conclusions and the events of a run\<close>

text \<open>The SSM invocation statuses the workflows test for (\<open>Status Values\<close> of the
  workflow documentation).\<close>

datatype status = Pending | InProgress | Success | Failed | Cancelled | TimedOut

text \<open>The conclusion of a workflow job.\<close>

datatype conclusion = JobSuccess | JobFailure

text \<open>\<open>--instance-ids\<close> or \<open>--targets "Key=tag:aws:autoscaling:groupName,Values=..."\<close>.\<close>

datatype targets = InstanceIds "string list" | AsgTag string

text \<open>
  The command sets the workflows send: the backup copy, the deploy script, the restore
  script and two health probes.
  \<^item> \<open>HealthCmd d url\<close> is the probe of the single-instance workflows, written in single
    quotes and so sent as it stands: the instance sleeps \<open>d\<close> seconds (none, in these
    workflows) and fetches the URL with \<open>curl -sf\<close>.
  \<^item> \<open>FleetProbeCmd d code\<close> is the probe of the Auto Scaling workflows as it is sent.
    Its parameter string is in double quotes, where the escaped backslash before
    \<open>$(curl ...)\<close> leaves a command substitution: \<open>curl\<close> runs on the runner while the string is
    built, and the instance receives \<open>sleep d\<close> and then an assignment and a test of
    \<open>code\<close>, the text that \<open>curl\<close> printed on the runner. The command sent holds no
    \<open>curl\<close> and no URL.
\<close>

datatype command =
  BackupCmd | DeployCmd | HealthCmd nat string | FleetProbeCmd nat string | RestoreCmd

text \<open>What a run does, in order: a write under an S3 key prefix, an
  \<open>aws ssm send-command\<close>, a \<open>sleep\<close> on the runner, a line written to the job log, a
  \<open>curl\<close> of a URL run on the runner itself.\<close>

datatype event =
  S3Write string | SendCommand targets command | Sleep nat | Echo string | RunnerCurl string

subsection \<open>Steps of a job\<close>

text \<open>
  A step has an \<open>if:\<close> condition over the job status so far and the world, and a body
  that returns whether it succeeded. A step without a status function in its condition
  runs only while no earlier step has failed; \<open>if: failure()\<close> runs only after one has.
  A failing step makes the job conclusion \<open>failure\<close>.
\<close>

type_synonym 'w step = "(conclusion \<Rightarrow> 'w \<Rightarrow> bool) \<times> ('w \<Rightarrow> bool \<times> 'w)"

fun run_steps :: "'w step list \<Rightarrow> conclusion \<Rightarrow> 'w \<Rightarrow> conclusion \<times> 'w" where
  "run_steps [] c w = (c, w)"
| "run_steps ((cond, body) # ss) c w =
     (if cond c w
      then (case body w of (ok, w') \<Rightarrow> run_steps ss (if ok then c else JobFailure) w')
      else run_steps ss c w)"

definition on_success :: "conclusion \<Rightarrow> 'w \<Rightarrow> bool" where
  "on_success c w = (c = JobSuccess)"

definition on_failure :: "conclusion \<Rightarrow> 'w \<Rightarrow> bool" where
  "on_failure c w = (c = JobFailure)"

subsection \<open>Waiting for an SSM command\<close>

text \<open>How a wait loop of a step script ends: \<open>exit 1\<close>, \<open>break\<close>, or the \<open>for\<close> loop
  running out of iterations (the script then goes on after \<open>done\<close>).\<close>

datatype wait_result = Exit1 | Completed | Exhausted

text \<open>
  The fleet loop of the Auto Scaling workflows (\<open>for i in {1..20}\<close>, \<open>{1..30}\<close> for the
  backend). \<open>poll i\<close> is what \<open>aws ssm list-command-invocations\<close> prints at the
  \<open>i\<close>-th query, one instance id and status per line; \<open>PENDING\<close> and \<open>FAILED\<close> count the
  lines that \<open>grep -E\<close> keeps.
\<close>

definition count_pending :: "(string \<times> status) list \<Rightarrow> nat" where
  "count_pending sts = length (filter (\<lambda>(i, s). s = Pending \<or> s = InProgress) sts)"

definition count_failed :: "(string \<times> status) list \<Rightarrow> nat" where
  "count_failed sts =
     length (filter (\<lambda>(i, s). s = Failed \<or> s = Cancelled \<or> s = TimedOut) sts)"

fun fleet_wait :: "nat \<Rightarrow> nat \<Rightarrow> (nat \<Rightarrow> (string \<times> status) list) \<Rightarrow> wait_result" where
  "fleet_wait 0 i poll = Exhausted"
| "fleet_wait (Suc n) i poll =
     (if count_failed (poll i) > 0 then Exit1
      else if count_pending (poll i) = 0 then Completed
      else fleet_wait n (Suc i) poll)"

text \<open>
  The loop of the design document's backend deploy step (\<open>for i in {1..30}\<close>) on the one
  configured instance. \<open>poll i\<close> is \<open>STATUS\<close> at the \<open>i\<close>-th query (a failing query
  counts as \<open>Pending\<close>). Only \<open>Failed\<close> and \<open>Cancelled\<close> lead to \<open>exit 1\<close>.
\<close>

fun single_wait :: "nat \<Rightarrow> nat \<Rightarrow> (nat \<Rightarrow> status) \<Rightarrow> wait_result" where
  "single_wait 0 i poll = Exhausted"
| "single_wait (Suc n) i poll =
     (if poll i = Success then Completed
      else if poll i = Failed \<or> poll i = Cancelled then Exit1
      else single_wait n (Suc i) poll)"

text \<open>
  \<open>aws ssm wait command-executed\<close>: the command line's waiter queries the invocation up
  to 20 times; it returns at the first \<open>Success\<close> (here with the number of that query),
  goes on while the command is pending or in progress, and fails on any other status or
  when the queries run out.
\<close>

fun ssm_wait :: "nat \<Rightarrow> nat \<Rightarrow> (nat \<Rightarrow> status) \<Rightarrow> nat option" where
  "ssm_wait 0 i poll = None"
| "ssm_wait (Suc n) i poll =
     (case poll i of
        Success \<Rightarrow> Some i
      | Pending \<Rightarrow> ssm_wait n (Suc i) poll
      | InProgress \<Rightarrow> ssm_wait n (Suc i) poll
      | _ \<Rightarrow> None)"

definition command_executed :: "(nat \<Rightarrow> status) \<Rightarrow> bool" where
  "command_executed poll = (ssm_wait 20 1 poll \<noteq> None)"

subsection \<open>The artifact bucket\<close>

text \<open>
  The bucket is a map from object keys to objects. \<open>aws s3 sync dir s3://bucket/prefix\<close>
  uploads every file of the local directory under the prefix; it is called without
  \<open>--delete\<close>, so objects under the prefix that the directory does not have stay.
  \<open>aws s3 cp file s3://bucket/key\<close> writes one object. Reading a prefix back into an
  empty directory (\<open>aws s3 sync s3://bucket/prefix dir\<close>, as the deploy command and the
  launch template's user data do) yields every object under the prefix.
\<close>

type_synonym dir = "string \<rightharpoonup> string"

definition s3_sync :: "dir \<Rightarrow> string \<Rightarrow> (string \<rightharpoonup> string) \<Rightarrow> (string \<rightharpoonup> string)" where
  "s3_sync d pre store =
     (\<lambda>k. if prefix pre k
          then (case d (drop (length pre) k) of Some c \<Rightarrow> Some c | None \<Rightarrow> store k)
          else store k)"

definition s3_cp :: "'o \<Rightarrow> string \<Rightarrow> (string \<rightharpoonup> 'o) \<Rightarrow> (string \<rightharpoonup> 'o)" where
  "s3_cp obj key store = store(key \<mapsto> obj)"

definition s3_fetch_prefix :: "string \<Rightarrow> (string \<rightharpoonup> string) \<Rightarrow> dir" where
  "s3_fetch_prefix pre store = (\<lambda>f. store (pre @ f))"

text \<open>\<open>zip -r ../backend-$TIMESTAMP.zip . -x "node_modules/*" -x ".env"\<close> run inside
  \<open>backend\<close>: the archive holds the files of the directory except \<open>.env\<close> and
  everything under \<open>node_modules/\<close>.\<close>

definition zip_backend :: "dir \<Rightarrow> dir" where
  "zip_backend d = (\<lambda>p. if p = ''.env'' \<or> prefix ''node_modules/'' p then None else d p)"

subsection \<open>The Auto Scaling workflows (WORKFLOW-DOCUMENTATION.md)\<close>

text \<open>The world of a run: the bucket, the variables the steps append to
  \<open>$GITHUB_ENV\<close> (\<open>DEPLOY_PATH\<close> or \<open>DEPLOY_FILE\<close>, \<open>INSTANCE_IDS\<close>,
  \<open>INSTANCE_COUNT\<close>) and the events so far.\<close>

record 'o asg_world =
  s3 :: "string \<rightharpoonup> 'o"
  deploy_ref :: "string option"
  instance_ids :: "string list"
  instance_count :: "nat option"
  trace :: "event list"

text \<open>
  What the outside answers during a run: whether the steps before the upload succeed
  (artifact download or fallback build, checkout, AWS credentials), the \<open>date\<close> stamp,
  the local build (the \<open>./build\<close> directory, or the \<open>backend\<close> directory), whether each
  of the two S3 transfers succeeds (a failed transfer is taken to write nothing), the name
  of the Auto Scaling group, its InService instance ids, what each query of the deploy
  command's invocations prints, what \<open>curl -w '%{http_code}'\<close> prints when it runs on
  the runner, and the status the probe command ends with on the instance. No step of the
  listed workflows queries the probe command, so nothing below reads \<open>probe_status\<close>.
\<close>

record asg_ext =
  prepared :: bool
  timestamp :: string
  build :: dir
  versioned_ok :: bool
  latest_ok :: bool
  asg_name :: string
  in_service :: "string list"
  deploy_poll :: "nat \<Rightarrow> (string \<times> status) list"
  runner_code :: string
  probe_status :: status

definition prepare_step :: "asg_ext \<Rightarrow> 'o asg_world \<Rightarrow> bool \<times> 'o asg_world" where
  "prepare_step x w = (prepared x, w)"

text \<open>Step \<open>Upload build to S3\<close> of the frontend workflow: the timestamped sync, then
  the sync to \<open>latest\<close>, then \<open>DEPLOY_PATH\<close>.\<close>

definition upload_frontend :: "asg_ext \<Rightarrow> string asg_world \<Rightarrow> bool \<times> string asg_world" where
  "upload_frontend x w =
     (if \<not> versioned_ok x then (False, w)
      else
        let pre = ''frontend/'' @ timestamp x @ ''/'';
            w1 = w\<lparr>s3 := s3_sync (build x) pre (s3 w), trace := trace w @ [S3Write pre]\<rparr>
        in if \<not> latest_ok x then (False, w1)
           else (True, w1\<lparr>s3 := s3_sync (build x) ''frontend/latest/'' (s3 w1),
                           trace := trace w1 @ [S3Write ''frontend/latest/''],
                           deploy_ref := Some (''frontend/'' @ timestamp x)\<rparr>))"

text \<open>Step \<open>Package backend and upload to S3\<close> of the backend workflow: the archive is
  copied under its timestamped key, then to \<open>backend/latest/backend.zip\<close>.\<close>

definition upload_backend :: "asg_ext \<Rightarrow> dir asg_world \<Rightarrow> bool \<times> dir asg_world" where
  "upload_backend x w =
     (let z = zip_backend (build x);
          key = ''backend/backend-'' @ timestamp x @ ''.zip''
      in if \<not> versioned_ok x then (False, w)
         else
           let w1 = w\<lparr>s3 := s3_cp z key (s3 w), trace := trace w @ [S3Write key]\<rparr>
           in if \<not> latest_ok x then (False, w1)
              else (True, w1\<lparr>s3 := s3_cp z ''backend/latest/backend.zip'' (s3 w1),
                              trace := trace w1 @ [S3Write ''backend/latest/backend.zip''],
                              deploy_ref := Some key\<rparr>))"

text \<open>Step \<open>Get ASG Instance IDs\<close>: an empty answer gives a warning and
  \<open>INSTANCE_COUNT=0\<close>, anything else sets \<open>INSTANCE_IDS\<close> and the word count.\<close>

definition get_instances :: "asg_ext \<Rightarrow> 'o asg_world \<Rightarrow> bool \<times> 'o asg_world" where
  "get_instances x w =
     (if in_service x = []
      then (True, w\<lparr>instance_count := Some 0,
                     trace := trace w @ [Echo ''::warning::No InService instances found in ASG'']\<rparr>)
      else (True, w\<lparr>instance_ids := in_service x,
                     instance_count := Some (length (in_service x))\<rparr>))"

text \<open>\<open>if: env.INSTANCE_COUNT != '0'\<close>, which also needs every earlier step to have
  succeeded.\<close>

definition on_instances :: "conclusion \<Rightarrow> 'o asg_world \<Rightarrow> bool" where
  "on_instances c w = (c = JobSuccess \<and> instance_count w \<noteq> Some 0)"

text \<open>Step \<open>Deploy to all ASG instances via SSM\<close>: one command to the instances tagged
  with the group name, then the fleet loop. The step fails only on \<open>exit 1\<close>; after
  \<open>break\<close> and after the last iteration the script has nothing left to run.\<close>

definition deploy_fleet :: "nat \<Rightarrow> asg_ext \<Rightarrow> 'o asg_world \<Rightarrow> bool \<times> 'o asg_world" where
  "deploy_fleet attempts x w =
     (let w1 = w\<lparr>trace := trace w @ [SendCommand (AsgTag (asg_name x)) DeployCmd]\<rparr>
      in (case fleet_wait attempts 1 (deploy_poll x) of
            Exit1 \<Rightarrow> (False, w1)
          | Completed \<Rightarrow> (True, w1)
          | Exhausted \<Rightarrow> (True, w1)))"

text \<open>Step \<open>Health check via SSM\<close>: \<open>FIRST_INSTANCE\<close> is the first word of
  \<open>INSTANCE_IDS\<close>. Building the parameter string runs \<open>curl\<close> on the runner; the
  probe command with the substituted text is then sent to that one instance. The step
  ends with the \<open>send-command\<close>: it does not wait for the command and does not read its
  status. With no first word the instance id is empty and \<open>send-command\<close> fails.\<close>

definition health_probe ::
  "nat \<Rightarrow> string \<Rightarrow> asg_ext \<Rightarrow> 'o asg_world \<Rightarrow> bool \<times> 'o asg_world" where
  "health_probe settle url x w =
     (let w1 = w\<lparr>trace := trace w @ [RunnerCurl url]\<rparr>
      in (case instance_ids w of
            [] \<Rightarrow> (False, w1)
          | i # _ \<Rightarrow>
              (True, w1\<lparr>trace := trace w1 @
                 [SendCommand (InstanceIds [i]) (FleetProbeCmd settle (runner_code x))]\<rparr>)))"

text \<open>Step \<open>Deployment summary\<close> (\<open>if: success()\<close>).\<close>

definition summary_step :: "string \<Rightarrow> 'o asg_world \<Rightarrow> bool \<times> 'o asg_world" where
  "summary_step title w = (True, w\<lparr>trace := trace w @ [Echo title]\<rparr>)"

definition asg_steps ::
  "(asg_ext \<Rightarrow> 'o asg_world \<Rightarrow> bool \<times> 'o asg_world) \<Rightarrow> nat \<Rightarrow> nat \<Rightarrow> string \<Rightarrow> string \<Rightarrow>
   asg_ext \<Rightarrow> 'o asg_world step list" where
  "asg_steps upload attempts settle url title x =
     [(on_success, prepare_step x),
      (on_success, upload x),
      (on_success, get_instances x),
      (on_instances, deploy_fleet attempts x),
      (on_instances, health_probe settle url x),
      (on_success, summary_step title)]"

definition deploy_frontend_asg :: "asg_ext \<Rightarrow> string asg_world \<Rightarrow> conclusion \<times> string asg_world" where
  "deploy_frontend_asg x w =
     run_steps (asg_steps upload_frontend 20 3 ''http://localhost/''
                  ''Frontend Deployment Successful!'' x) JobSuccess w"

definition deploy_backend_asg :: "asg_ext \<Rightarrow> dir asg_world \<Rightarrow> conclusion \<times> dir asg_world" where
  "deploy_backend_asg x w =
     run_steps (asg_steps upload_backend 30 5 ''http://localhost/books''
                  ''Backend Deployment Successful!'' x) JobSuccess w"

text \<open>A run starts with the bucket as it is and nothing in \<open>$GITHUB_ENV\<close>.\<close>

definition asg_start :: "(string \<rightharpoonup> 'o) \<Rightarrow> 'o asg_world" where
  "asg_start store =
     \<lparr>s3 = store, deploy_ref = None, instance_ids = [], instance_count = None, trace = []\<rparr>"

subsection \<open>The single-instance workflows (design document)\<close>

text \<open>
  The state of the configured instance as the workflows touch it: the live deployment
  directory (\<open>/var/www/html\<close> or \<open>~/app\<close>, absent before the first deployment) and
  the backup copies \<open>html.backup.*\<close> or \<open>app.backup.*\<close>, newest first, as
  \<open>ls -td\<close> lists them.
\<close>

record 'c target =
  live :: "'c option"
  backups :: "'c list"

record 'c design_world =
  tgt :: "'c target"
  dtrace :: "event list"

text \<open>
  What the outside answers during a run: whether the steps before the backup succeed
  (artifact download or checkout, AWS credentials, upload to S3), the configured instance
  id, what each status query of the four commands returns, how \<open>cp -r\<close> of the backup
  command ends on the instance, what the deploy command leaves in the live directory,
  and what a restore that does not report \<open>Success\<close> leaves there.
\<close>

text \<open>How a \<open>cp -r\<close> of a directory ends: the whole copy is made, nothing is made, or
  the copy stops on the way and leaves a directory with part of the content.\<close>

datatype 'c copy_result = Copied | NotCopied | PartlyCopied 'c

record 'c design_ext =
  d_prepared :: bool
  d_instance :: string
  backup_poll :: "nat \<Rightarrow> status"
  backup_cp :: "'c copy_result"
  d_deploy_poll :: "nat \<Rightarrow> status"
  deployed :: "'c option"
  health_poll :: "nat \<Rightarrow> status"
  restore_poll :: "nat \<Rightarrow> status"
  restore_left :: "'c option"

text \<open>The backup command \<open>cp -r LIVE LIVE.backup.$(date ...) 2>/dev/null || true\<close>:
  a copy that fails (no live directory yet, or any other reason) is ignored, and what a
  copy that stopped on the way has written stays as the newest \<open>LIVE.backup.*\<close>.\<close>

definition backup_script :: "'c copy_result \<Rightarrow> 'c target \<Rightarrow> 'c target" where
  "backup_script cp t =
     (case live t of
        None \<Rightarrow> t
      | Some c \<Rightarrow>
          (case cp of
             Copied \<Rightarrow> t\<lparr>backups := c # backups t\<rparr>
           | NotCopied \<Rightarrow> t
           | PartlyCopied p \<Rightarrow> t\<lparr>backups := p # backups t\<rparr>))"

text \<open>The restore command: \<open>LATEST_BACKUP=$(ls -td LIVE.backup.* | head -1)\<close>; only
  with a backup is the live directory replaced by its content.\<close>

definition restore_script :: "'c target \<Rightarrow> 'c target" where
  "restore_script t = (case backups t of [] \<Rightarrow> t | b # _ \<Rightarrow> t\<lparr>live := Some b\<rparr>)"

definition restore_failed :: "'c option \<Rightarrow> 'c target \<Rightarrow> 'c target" where
  "restore_failed left t = (case backups t of [] \<Rightarrow> t | b # _ \<Rightarrow> t\<lparr>live := left\<rparr>)"

definition d_prepare_step :: "'c design_ext \<Rightarrow> 'c design_world \<Rightarrow> bool \<times> 'c design_world" where
  "d_prepare_step x w = (d_prepared x, w)"

text \<open>Step \<open>Backup current deployment via SSM\<close>: send the backup command, then
  \<open>aws ssm wait command-executed\<close>.\<close>

definition backup_step :: "'c design_ext \<Rightarrow> 'c design_world \<Rightarrow> bool \<times> 'c design_world" where
  "backup_step x w =
     (let w1 = w\<lparr>dtrace := dtrace w @ [SendCommand (InstanceIds [d_instance x]) BackupCmd]\<rparr>
      in if command_executed (backup_poll x)
         then (True, w1\<lparr>tgt := backup_script (backup_cp x) (tgt w1)\<rparr>)
         else (False, w1))"

text \<open>The frontend deploy step waits with \<open>aws ssm wait command-executed\<close>, then reads
  the status once more and exits 1 unless it is \<open>Success\<close>. The backend deploy step
  runs the 30-iteration loop.\<close>

definition frontend_deploy_ok :: "(nat \<Rightarrow> status) \<Rightarrow> bool" where
  "frontend_deploy_ok poll =
     (case ssm_wait 20 1 poll of None \<Rightarrow> False | Some i \<Rightarrow> poll (Suc i) = Success)"

definition backend_deploy_ok :: "(nat \<Rightarrow> status) \<Rightarrow> bool" where
  "backend_deploy_ok poll =
     (case single_wait 30 1 poll of Exit1 \<Rightarrow> False | Completed \<Rightarrow> True | Exhausted \<Rightarrow> True)"

definition deploy_step ::
  "((nat \<Rightarrow> status) \<Rightarrow> bool) \<Rightarrow> 'c design_ext \<Rightarrow> 'c design_world \<Rightarrow> bool \<times> 'c design_world" where
  "deploy_step deploy_ok x w =
     (let w1 = w\<lparr>dtrace := dtrace w @ [SendCommand (InstanceIds [d_instance x]) DeployCmd],
                 tgt := (tgt w)\<lparr>live := deployed x\<rparr>\<rparr>
      in (deploy_ok (d_deploy_poll x), w1))"

text \<open>Step \<open>Health check via SSM\<close>: \<open>sleep\<close> on the runner, send the probe, and
  \<open>exit 1\<close> when the wait fails.\<close>

definition health_step ::
  "nat \<Rightarrow> string \<Rightarrow> 'c design_ext \<Rightarrow> 'c design_world \<Rightarrow> bool \<times> 'c design_world" where
  "health_step settle url x w =
     (let w1 = w\<lparr>dtrace := dtrace w @
                  [Sleep settle, SendCommand (InstanceIds [d_instance x]) (HealthCmd 0 url)]\<rparr>
      in (command_executed (health_poll x), w1))"

text \<open>Step \<open>Notify success\<close> (\<open>if: success()\<close>).\<close>

definition notify_step :: "string \<Rightarrow> 'c design_world \<Rightarrow> bool \<times> 'c design_world" where
  "notify_step msg w = (True, w\<lparr>dtrace := dtrace w @ [Echo msg]\<rparr>)"

text \<open>Step \<open>Rollback on failure\<close> (\<open>if: failure()\<close>): send the restore command, wait for
  it, and only then print the message.\<close>

definition rollback_step :: "'c design_ext \<Rightarrow> 'c design_world \<Rightarrow> bool \<times> 'c design_world" where
  "rollback_step x w =
     (let w1 = w\<lparr>dtrace := dtrace w @ [SendCommand (InstanceIds [d_instance x]) RestoreCmd]\<rparr>
      in if command_executed (restore_poll x)
         then (True, w1\<lparr>tgt := restore_script (tgt w1),
                        dtrace := dtrace w1 @ [Echo ''Rolled back to previous deployment'']\<rparr>)
         else (False, w1\<lparr>tgt := restore_failed (restore_left x) (tgt w1)\<rparr>))"

definition design_steps ::
  "((nat \<Rightarrow> status) \<Rightarrow> bool) \<Rightarrow> nat \<Rightarrow> string \<Rightarrow> string \<Rightarrow> 'c design_ext \<Rightarrow>
   'c design_world step list" where
  "design_steps deploy_ok settle url msg x =
     [(on_success, d_prepare_step x),
      (on_success, backup_step x),
      (on_success, deploy_step deploy_ok x),
      (on_success, health_step settle url x),
      (on_success, notify_step msg),
      (on_failure, rollback_step x)]"

text \<open>A run starts on the instance as it is, with nothing done yet.\<close>

definition design_run ::
  "((nat \<Rightarrow> status) \<Rightarrow> bool) \<Rightarrow> nat \<Rightarrow> string \<Rightarrow> string \<Rightarrow> 'c design_ext \<Rightarrow> 'c target \<Rightarrow>
   conclusion \<times> 'c design_world" where
  "design_run deploy_ok settle url msg x t =
     run_steps (design_steps deploy_ok settle url msg x) JobSuccess \<lparr>tgt = t, dtrace = []\<rparr>"

definition deploy_frontend ::
  "'c design_ext \<Rightarrow> 'c target \<Rightarrow> conclusion \<times> 'c design_world" where
  "deploy_frontend x t =
     design_run frontend_deploy_ok 10 ''http://localhost/'' ''Frontend deployed successfully'' x t"

definition deploy_backend ::
  "'c design_ext \<Rightarrow> 'c target \<Rightarrow> conclusion \<times> 'c design_world" where
  "deploy_backend x t =
     design_run backend_deploy_ok 15 ''http://localhost:80/books''
       ''Backend deployed successfully'' x t"

text \<open>The instance after the backup step and the deploy step of a run.\<close>

definition after_deploy :: "'c design_ext \<Rightarrow> 'c target \<Rightarrow> 'c target" where
  "after_deploy x t = (backup_script (backup_cp x) t)\<lparr>live := deployed x\<rparr>"

text \<open>The events of a run before its first deploy dispatch.\<close>

definition is_deploy :: "event \<Rightarrow> bool" where
  "is_deploy e = (case e of SendCommand ts DeployCmd \<Rightarrow> True | _ \<Rightarrow> False)"

definition before_deploy :: "event list \<Rightarrow> event list" where
  "before_deploy es = takeWhile (\<lambda>e. \<not> is_deploy e) es"

definition is_send :: "event \<Rightarrow> bool" where
  "is_send e = (case e of SendCommand ts c \<Rightarrow> True | _ \<Rightarrow> False)"

subsection \<open>The backend deploy command on an instance\<close>

text \<open>
  The directories the backend deploy command works on, under the home directory of the
  instance: \<open>app\<close>, \<open>app.new\<close>, \<open>app.old\<close> (absent ones are \<open>None\<close>).
\<close>

record backend_fs =
  app :: "dir option"
  app_new :: "dir option"
  app_old :: "dir option"

text \<open>\<open>rm -rf app.new && mkdir -p app.new\<close>, then \<open>unzip -o /tmp/backend.zip -d app.new\<close>.\<close>

definition unzip_new :: "dir \<Rightarrow> backend_fs \<Rightarrow> backend_fs" where
  "unzip_new z fs = fs\<lparr>app_new := Some z\<rparr>"

text \<open>\<open>cp app/.env app.new/.env 2>/dev/null || echo No existing .env to preserve\<close>
  (\<open>|| true\<close> in the design document): the line ends with status 0 whatever \<open>cp\<close>
  does. \<open>cp_ok\<close> says whether \<open>cp\<close> succeeds when the live directory has the file;
  without the file, and when \<open>cp\<close> fails, \<open>app.new\<close> stays as extracted.\<close>

definition cp_env :: "bool \<Rightarrow> backend_fs \<Rightarrow> backend_fs" where
  "cp_env cp_ok fs =
     (case (app fs, app_new fs) of
        (Some a, Some n) \<Rightarrow>
          (case a ''.env'' of
             Some e \<Rightarrow> if cp_ok then fs\<lparr>app_new := Some (n(''.env'' \<mapsto> e))\<rparr> else fs
           | None \<Rightarrow> fs)
      | _ \<Rightarrow> fs)"

text \<open>\<open>cd app.new && npm ci --production\<close>: \<open>node_modules\<close> of the new directory
  becomes what the install produces.\<close>

definition npm_ci :: "dir \<Rightarrow> backend_fs \<Rightarrow> backend_fs" where
  "npm_ci deps fs =
     (case app_new fs of
        None \<Rightarrow> fs
      | Some n \<Rightarrow> fs\<lparr>app_new := Some (\<lambda>p. if prefix ''node_modules/'' p then deps p else n p)\<rparr>)"

text \<open>\<open>rm -rf ../app.old && mv ../app ../app.old 2>/dev/null || true\<close>.\<close>

definition mv_app_old :: "backend_fs \<Rightarrow> backend_fs" where
  "mv_app_old fs = fs\<lparr>app_old := app fs, app := None\<rparr>"

text \<open>\<open>mv ../app.new ../app\<close>.\<close>

definition mv_new_app :: "backend_fs \<Rightarrow> backend_fs" where
  "mv_new_app fs = fs\<lparr>app := app_new fs, app_new := None\<rparr>"

text \<open>The part of the command before the two \<open>mv\<close>, and the whole command, on the path
  where the download, the extraction and the install succeed. No line of the command
  tests what the copy of \<open>.env\<close> did: the command goes on to the two \<open>mv\<close> and ends
  with the status of its last line, an \<open>echo\<close> (\<open>rm -f\<close> in the design document).\<close>

definition stage_backend :: "dir \<Rightarrow> dir \<Rightarrow> bool \<Rightarrow> backend_fs \<Rightarrow> backend_fs" where
  "stage_backend z deps cp_ok fs = npm_ci deps (cp_env cp_ok (unzip_new z fs))"

definition deploy_backend_script :: "dir \<Rightarrow> dir \<Rightarrow> bool \<Rightarrow> backend_fs \<Rightarrow> backend_fs" where
  "deploy_backend_script z deps cp_ok fs =
     mv_new_app (mv_app_old (stage_backend z deps cp_ok fs))"

text \<open>The \<open>.env\<close> of the live application directory, if there is one.\<close>

definition env_file :: "backend_fs \<Rightarrow> string option" where
  "env_file fs = (case app fs of None \<Rightarrow> None | Some a \<Rightarrow> a ''.env'')"


subsection \<open>The concurrency group of a deploy workflow\<close>

text \<open>
  Both deploy workflows declare \<open>concurrency: group: deploy-..., cancel-in-progress:
  false\<close>; that block is all the sources hold of the serialization of runs. The scheduler
  that acts on it is GitHub's and is not in the sources. It is modelled below from the
  specification (sections 4.6 and 5) and the workflow documentation's words on the block:
  for one group, a run is waiting, running, finished or cancelled; a trigger while a run
  of the group is running either cancels that run (\<open>cancel-in-progress: true\<close>) or
  waits, and a newer waiting run replaces an older one; when the running run finishes,
  the waiting run starts.
\<close>

datatype run_state = Waiting | Running | Finished | CancelledRun

record concurrency =
  conc_group :: string
  cancel_in_progress :: bool

definition deploy_frontend_concurrency :: concurrency where
  "deploy_frontend_concurrency = \<lparr>conc_group = ''deploy-frontend'', cancel_in_progress = False\<rparr>"

definition deploy_backend_concurrency :: concurrency where
  "deploy_backend_concurrency = \<lparr>conc_group = ''deploy-backend'', cancel_in_progress = False\<rparr>"

type_synonym wf_run = "nat \<times> run_state"

definition running :: "wf_run list \<Rightarrow> wf_run list" where
  "running rs = filter (\<lambda>r. snd r = Running) rs"

definition cancel_state :: "run_state \<Rightarrow> wf_run \<Rightarrow> wf_run" where
  "cancel_state s r = (if snd r = s then (fst r, CancelledRun) else r)"

text \<open>Modelled from the spec: the scheduler's reaction to a trigger is missing from the
  sources. With no run of the group running the new run starts; otherwise, with
  \<open>cancel-in-progress: false\<close>, the active run is not cancelled, the new run waits, and a
  run that was waiting is dropped (with \<open>true\<close> the active run is cancelled and the
  new one starts).\<close>

definition trigger :: "concurrency \<Rightarrow> nat \<Rightarrow> wf_run list \<Rightarrow> wf_run list" where
  "trigger cfg rid rs =
     (if running rs = [] then rs @ [(rid, Running)]
      else if cancel_in_progress cfg
      then map (cancel_state Waiting) (map (cancel_state Running) rs) @ [(rid, Running)]
      else map (cancel_state Waiting) rs @ [(rid, Waiting)])"

text \<open>Modelled from the spec: the start of the waiting run is missing from the sources.
  The first waiting run of the group becomes the running one.\<close>

fun start_waiting :: "wf_run list \<Rightarrow> wf_run list" where
  "start_waiting [] = []"
| "start_waiting (r # rs) =
     (if snd r = Waiting then (fst r, Running) # rs else r # start_waiting rs)"

text \<open>Modelled from the spec: the scheduler's reaction to the end of a run is missing from
  the sources. The running run is finished and the waiting run, if any, starts after it.\<close>

definition finish :: "nat \<Rightarrow> wf_run list \<Rightarrow> wf_run list" where
  "finish rid rs =
     (if (rid, Running) \<in> set rs
      then start_waiting (map (\<lambda>r. if r = (rid, Running) then (rid, Finished) else r) rs)
      else rs)"

datatype trigger_event = Trigger nat | Finish nat

text \<open>Modelled from the spec: the scheduler's handling of a sequence of triggers and ends
  of runs is missing from the sources. The events are handled one after the other.\<close>

fun schedule :: "concurrency \<Rightarrow> trigger_event list \<Rightarrow> wf_run list \<Rightarrow> wf_run list" where
  "schedule cfg [] rs = rs"
| "schedule cfg (Trigger rid # es) rs = schedule cfg es (trigger cfg rid rs)"
| "schedule cfg (Finish rid # es) rs = schedule cfg es (finish rid rs)"

subsection \<open>Example runs\<close>

text \<open>A frontend run on two instances where the second one is still in progress at every
  one of the 20 status checks.\<close>

definition stuck_fleet_run :: asg_ext where
  "stuck_fleet_run =
     \<lparr>prepared = True, timestamp = ''20240115143022'', build = [''index.html'' \<mapsto> ''v2''],
      versioned_ok = True, latest_ok = True, asg_name = ''frontend-asg-primary'',
      in_service = [''i-0a1'', ''i-0b2''],
      deploy_poll = (\<lambda>i. [(''i-0a1'', Success), (''i-0b2'', InProgress)]),
      runner_code = ''000'', probe_status = Success\<rparr>"

text \<open>A frontend run on three instances where the second one reports \<open>Failed\<close>, on a
  bucket whose \<open>latest\<close> holds an earlier build.\<close>

definition failed_target_run :: asg_ext where
  "failed_target_run =
     \<lparr>prepared = True, timestamp = ''20240115143022'', build = [''index.html'' \<mapsto> ''v2''],
      versioned_ok = True, latest_ok = True, asg_name = ''frontend-asg-primary'',
      in_service = [''i-0a1'', ''i-0b2'', ''i-0c3''],
      deploy_poll = (\<lambda>i. [(''i-0a1'', Success), (''i-0b2'', Failed), (''i-0c3'', Success)]),
      runner_code = ''000'', probe_status = Success\<rparr>"

definition old_bucket :: "string \<rightharpoonup> string" where
  "old_bucket = [''frontend/latest/index.html'' \<mapsto> ''v1'']"

text \<open>A design-document backend run whose deploy command is reported \<open>TimedOut\<close> at
  every status query, while the backup and the health probe succeed.\<close>

definition timed_out_backend_run :: "string design_ext" where
  "timed_out_backend_run =
     \<lparr>d_prepared = True, d_instance = ''i-0be1'', backup_poll = (\<lambda>i. Success),
      backup_cp = Copied, d_deploy_poll = (\<lambda>i. TimedOut), deployed = Some ''partial'',
      health_poll = (\<lambda>i. Success), restore_poll = (\<lambda>i. Success), restore_left = None\<rparr>"

definition running_v1 :: "string target" where
  "running_v1 = \<lparr>live = Some ''v1'', backups = []\<rparr>"

text \<open>A publishing run on a group without InService instances, and a bucket whose
  \<open>latest\<close> still holds a bundle of an earlier build.\<close>

definition empty_fleet_run :: asg_ext where
  "empty_fleet_run =
     \<lparr>prepared = True, timestamp = ''20240115143022'', build = [''index.html'' \<mapsto> ''v2''],
      versioned_ok = True, latest_ok = True, asg_name = ''frontend-asg-primary'',
      in_service = [], deploy_poll = (\<lambda>i. []),
      runner_code = ''000'', probe_status = Success\<rparr>"

definition stale_bucket :: "string \<rightharpoonup> string" where
  "stale_bucket = [''frontend/latest/main.0a1b.js'' \<mapsto> ''old bundle'']"

text \<open>The same run when the second transfer, to \<open>latest\<close>, fails.\<close>

definition latest_fails_run :: asg_ext where
  "latest_fails_run = empty_fleet_run\<lparr>latest_ok := False\<rparr>"

text \<open>Design-document runs on one instance: one where \<open>cp -r\<close> of the backup command
  fails, one where the deploy command fails, one where the health probe fails.\<close>

definition failed_copy_run :: "string design_ext" where
  "failed_copy_run =
     \<lparr>d_prepared = True, d_instance = ''i-0fe1'', backup_poll = (\<lambda>i. Success),
      backup_cp = NotCopied, d_deploy_poll = (\<lambda>i. Success), deployed = Some ''v2'',
      health_poll = (\<lambda>i. Success), restore_poll = (\<lambda>i. Success), restore_left = None\<rparr>"

definition failed_deploy_run :: "string design_ext" where
  "failed_deploy_run =
     \<lparr>d_prepared = True, d_instance = ''i-0fe1'', backup_poll = (\<lambda>i. Success),
      backup_cp = Copied, d_deploy_poll = (\<lambda>i. Failed), deployed = Some ''partial'',
      health_poll = (\<lambda>i. Success), restore_poll = (\<lambda>i. Success), restore_left = None\<rparr>"


definition failed_backup_run :: "string design_ext" where
  "failed_backup_run = failed_copy_run\<lparr>backup_poll := (\<lambda>i. TimedOut)\<rparr>"



text \<open>Design-document runs whose deploy command fails: one where the copy of the backup
  command stopped on the way, one where it made nothing.\<close>

definition partial_copy_run :: "string design_ext" where
  "partial_copy_run = failed_deploy_run\<lparr>backup_cp := PartlyCopied ''part of v1''\<rparr>"

definition no_copy_run :: "string design_ext" where
  "no_copy_run = failed_deploy_run\<lparr>backup_cp := NotCopied\<rparr>"



section \<open>Properties\<close>

lemmas asg_defs = deploy_frontend_asg_def deploy_backend_asg_def asg_steps_def asg_start_def
  on_success_def on_instances_def prepare_step_def upload_frontend_def upload_backend_def
  get_instances_def deploy_fleet_def health_probe_def summary_step_def Let_def

lemmas design_defs = deploy_frontend_def deploy_backend_def design_run_def design_steps_def on_success_def
  on_failure_def d_prepare_step_def backup_step_def deploy_step_def health_step_def
  notify_step_def rollback_step_def Let_def

subsection \<open>The wait loops\<close>

lemma fleet_wait_pending:
  "(\<And>j. count_failed (poll j) = 0 \<and> count_pending (poll j) \<noteq> 0) \<Longrightarrow>
   fleet_wait n i poll = Exhausted"
  by (induction n arbitrary: i) simp_all

text \<open>The fleet loop exits 1 at the first status check that shows a failed, cancelled or
  timed-out instance, and it reports completion only on a check that shows none.\<close>

lemma fleet_wait_failed_now:
  "count_failed (poll i) > 0 \<Longrightarrow> fleet_wait (Suc n) i poll = Exit1"
  by simp

lemma fleet_wait_completed:
  "fleet_wait n i poll = Completed \<Longrightarrow>
   \<exists>k<n. count_failed (poll (i + k)) = 0 \<and> count_pending (poll (i + k)) = 0"
proof (induction n arbitrary: i)
  case 0
  then show ?case by simp
next
  case (Suc n)
  show ?case
  proof (cases "count_failed (poll i) = 0 \<and> count_pending (poll i) = 0")
    case True
    then have "count_failed (poll (i + 0)) = 0 \<and> count_pending (poll (i + 0)) = 0" by simp
    then show ?thesis by blast
  next
    case False
    with Suc.prems have "fleet_wait n (Suc i) poll = Completed"
      by (auto split: if_splits)
    from Suc.IH [OF this] obtain k where
      k: "k < n" "count_failed (poll (Suc i + k)) = 0" "count_pending (poll (Suc i + k)) = 0"
      by blast
    then have "Suc k < Suc n \<and> count_failed (poll (i + Suc k)) = 0
        \<and> count_pending (poll (i + Suc k)) = 0" by simp
    then show ?thesis by blast
  qed
qed

lemma single_wait_no_exit:
  "(\<And>j. poll j = Pending \<or> poll j = InProgress \<or> poll j = TimedOut) \<Longrightarrow>
   single_wait n i poll = Exhausted"
proof (induction n arbitrary: i)
  case 0
  then show ?case by simp
next
  case (Suc n)
  have "poll i = Pending \<or> poll i = InProgress \<or> poll i = TimedOut" by (rule Suc.prems)
  then show ?case using Suc.IH [OF Suc.prems] by auto
qed

text \<open>A frontend run on a group with InService instances fails when the fleet loop exits 1,
  as it does when the first status check shows a failed, cancelled or timed-out instance.\<close>

lemma fleet_wait_exit1_fails:
  "in_service x \<noteq> [] \<Longrightarrow> fleet_wait 20 1 (deploy_poll x) = Exit1 \<Longrightarrow>
   fst (deploy_frontend_asg x (asg_start st)) = JobFailure"
  by (auto simp add: asg_defs split: list.splits)

lemma failed_first_check_fails:
  "in_service x \<noteq> [] \<Longrightarrow> count_failed (deploy_poll x 1) > 0 \<Longrightarrow>
   fst (deploy_frontend_asg x (asg_start st)) = JobFailure"
  by (rule fleet_wait_exit1_fails) (simp_all add: eval_nat_numeral)

lemma command_executed_const [simp]: "command_executed (\<lambda>i. s) = (s = Success)"
  unfolding command_executed_def
  by (cases s) (simp_all add: eval_nat_numeral)

subsection \<open>Exhausted polling budget\<close>

text \<open>
  C4. The specification asks that an exhausted polling budget be treated as a timeout and
  a failure. The fleet loop does otherwise: in the run \<open>stuck_fleet_run\<close> one instance is
  still \<open>InProgress\<close> at each of the 20 status checks, the loop runs out, the deploy step
  succeeds, the health probe is sent and the job concludes \<open>success\<close>.
\<close>

theorem C4_exhausted_budget_passes:
  "fleet_wait 20 1 (deploy_poll stuck_fleet_run) = Exhausted \<and>
   fst (deploy_frontend_asg stuck_fleet_run (asg_start Map.empty)) = JobSuccess \<and>
   trace (snd (deploy_frontend_asg stuck_fleet_run (asg_start Map.empty))) =
     [S3Write ''frontend/20240115143022/'', S3Write ''frontend/latest/'',
      SendCommand (AsgTag ''frontend-asg-primary'') DeployCmd,
      RunnerCurl ''http://localhost/'',
      SendCommand (InstanceIds [''i-0a1'']) (FleetProbeCmd 3 ''000''),
      Echo ''Frontend Deployment Successful!'']"
proof -
  have w: "fleet_wait 20 1 (deploy_poll stuck_fleet_run) = Exhausted"
    by (rule fleet_wait_pending)
       (simp add: stuck_fleet_run_def count_failed_def count_pending_def)
  show ?thesis
    using w by (simp add: asg_defs stuck_fleet_run_def)
qed

subsection \<open>A timed-out deploy command\<close>

text \<open>
  C1. The specification asks that a \<open>timed_out\<close> target never lets the run end in
  success. The design document's backend loop tests only for \<open>Failed\<close> and
  \<open>Cancelled\<close>: in the
  run \<open>timed_out_backend_run\<close> the deploy command is \<open>TimedOut\<close> at every query, the
  loop runs out, the health probe is sent and the job concludes \<open>success\<close>; the rollback
  step never runs.
\<close>

theorem C1_timed_out_deploy_passes:
  "d_deploy_poll timed_out_backend_run 1 = TimedOut \<and>
   d_deploy_poll timed_out_backend_run 30 = TimedOut \<and>
   fst (deploy_backend timed_out_backend_run running_v1) = JobSuccess \<and>
   dtrace (snd (deploy_backend timed_out_backend_run running_v1)) =
     [SendCommand (InstanceIds [''i-0be1'']) BackupCmd,
      SendCommand (InstanceIds [''i-0be1'']) DeployCmd,
      Sleep 15,
      SendCommand (InstanceIds [''i-0be1'']) (HealthCmd 0 ''http://localhost:80/books''),
      Echo ''Backend deployed successfully'']"
proof -
  have w: "single_wait 30 1 (d_deploy_poll timed_out_backend_run) = Exhausted"
    by (rule single_wait_no_exit) (simp add: timed_out_backend_run_def)
  show ?thesis
    using w by (simp add: design_defs timed_out_backend_run_def running_v1_def backend_deploy_ok_def)
qed

subsection \<open>The bucket and the upload steps\<close>

lemma s3_sync_published: "d f = Some c \<Longrightarrow> s3_sync d pre store (pre @ f) = Some c"
  by (simp add: s3_sync_def)

lemma s3_sync_fetch:
  "s3_fetch_prefix pre (s3_sync d pre store) f =
     (case d f of Some c \<Rightarrow> Some c | None \<Rightarrow> store (pre @ f))"
  by (simp add: s3_fetch_prefix_def s3_sync_def)

lemma upload_frontend_ok: "fst (upload_frontend x w) = (versioned_ok x \<and> latest_ok x)"
  by (simp add: upload_frontend_def Let_def)

lemma upload_backend_ok: "fst (upload_backend x w) = (versioned_ok x \<and> latest_ok x)"
  by (simp add: upload_backend_def Let_def)

text \<open>Runs of the Auto Scaling workflows, by cases on what the outside answers.\<close>

lemma asg_frontend_no_upload:
  "\<not> (prepared x \<and> versioned_ok x \<and> latest_ok x) \<Longrightarrow>
   fst (deploy_frontend_asg x (asg_start st)) = JobFailure \<and>
   filter is_send (trace (snd (deploy_frontend_asg x (asg_start st)))) = []"
  by (auto simp add: asg_defs is_send_def)

lemma asg_backend_no_upload:
  "\<not> (prepared x \<and> versioned_ok x \<and> latest_ok x) \<Longrightarrow>
   fst (deploy_backend_asg x (asg_start st)) = JobFailure \<and>
   filter is_send (trace (snd (deploy_backend_asg x (asg_start st)))) = []"
  by (auto simp add: asg_defs is_send_def)

lemma is_deploy_send: "is_deploy e \<Longrightarrow> is_send e"
  by (auto simp add: is_deploy_def is_send_def split: event.splits command.splits)

lemma no_send_no_deploy: "filter is_send es = [] \<Longrightarrow> e \<in> set es \<Longrightarrow> \<not> is_deploy e"
  using is_deploy_send by (fastforce simp add: filter_empty_conv)

lemma asg_frontend_uploaded:
  assumes "prepared x" "versioned_ok x" "latest_ok x"
  shows "s3 (snd (deploy_frontend_asg x (asg_start st))) =
           s3_sync (build x) ''frontend/latest/''
             (s3_sync (build x) (''frontend/'' @ timestamp x @ ''/'') st)"
    and "S3Write ''frontend/latest/'' \<in>
           set (before_deploy (trace (snd (deploy_frontend_asg x (asg_start st)))))"
  using assms
  by (cases "fleet_wait 20 1 (deploy_poll x)";
      auto simp add: asg_defs before_deploy_def is_deploy_def split: list.splits)+

lemma asg_backend_uploaded:
  assumes "prepared x" "versioned_ok x" "latest_ok x"
  shows "s3 (snd (deploy_backend_asg x (asg_start st))) ''backend/latest/backend.zip'' =
           Some (zip_backend (build x))"
    and "S3Write ''backend/latest/backend.zip'' \<in>
           set (before_deploy (trace (snd (deploy_backend_asg x (asg_start st)))))"
  using assms
  by (cases "fleet_wait 30 1 (deploy_poll x)";
      auto simp add: asg_defs before_deploy_def is_deploy_def s3_cp_def split: list.splits)+

subsection \<open>The \<open>latest\<close> key and the deploy command\<close>

text \<open>
  C2 does not hold as the specification states it: in the run \<open>failed_target_run\<close> the second of three instances
  reports \<open>Failed\<close> and the job concludes \<open>failure\<close>, yet \<open>latest\<close>, which held
  \<open>v1\<close> before the run, holds \<open>v2\<close> after it.
\<close>

theorem C2_counterexample:
  "old_bucket ''frontend/latest/index.html'' = Some ''v1'' \<and>
   count_failed (deploy_poll failed_target_run 1) = 1 \<and>
   fst (deploy_frontend_asg failed_target_run (asg_start old_bucket)) = JobFailure \<and>
   s3 (snd (deploy_frontend_asg failed_target_run (asg_start old_bucket)))
     ''frontend/latest/index.html'' = Some ''v2''"
  by (simp add: asg_defs failed_target_run_def old_bucket_def eval_nat_numeral
        count_failed_def s3_sync_def)

text \<open>
  C2, amended. The \<open>latest\<close> key is written by the upload step, before the instances
  are resolved: on every run that dispatches the deploy command, \<open>latest\<close> was written
  before the dispatch and holds the new artifact at the end of the run, whatever the
  instances report. (The deploy command downloads from \<open>latest\<close>.)
\<close>

theorem C2_current_written_before_deploy:
  "((\<exists>e \<in> set (trace (snd (deploy_frontend_asg x (asg_start st)))). is_deploy e) \<longrightarrow>
      S3Write ''frontend/latest/'' \<in>
        set (before_deploy (trace (snd (deploy_frontend_asg x (asg_start st))))) \<and>
      (\<forall>f c. build x f = Some c \<longrightarrow>
         s3 (snd (deploy_frontend_asg x (asg_start st))) (''frontend/latest/'' @ f) = Some c)) \<and>
   ((\<exists>e \<in> set (trace (snd (deploy_backend_asg x (asg_start bst)))). is_deploy e) \<longrightarrow>
      S3Write ''backend/latest/backend.zip'' \<in>
        set (before_deploy (trace (snd (deploy_backend_asg x (asg_start bst))))) \<and>
      s3 (snd (deploy_backend_asg x (asg_start bst))) ''backend/latest/backend.zip'' =
        Some (zip_backend (build x)))"
proof (intro conjI impI allI)
  assume "\<exists>e \<in> set (trace (snd (deploy_frontend_asg x (asg_start st)))). is_deploy e"
  then have up: "prepared x \<and> versioned_ok x \<and> latest_ok x"
    using asg_frontend_no_upload [of x st] no_send_no_deploy by blast
  show "S3Write ''frontend/latest/'' \<in>
           set (before_deploy (trace (snd (deploy_frontend_asg x (asg_start st)))))"
    using up asg_frontend_uploaded(2) by blast
  fix f c
  assume b: "build x f = Some c"
  have "s3 (snd (deploy_frontend_asg x (asg_start st))) =
         s3_sync (build x) ''frontend/latest/''
           (s3_sync (build x) (''frontend/'' @ timestamp x @ ''/'') st)"
    using up asg_frontend_uploaded(1) by blast
  moreover have "s3_sync (build x) ''frontend/latest/'' S (''frontend/latest/'' @ f) = Some c" for S
    using b by (rule s3_sync_published)
  ultimately show "s3 (snd (deploy_frontend_asg x (asg_start st))) (''frontend/latest/'' @ f) = Some c"
    by (simp only:)
next
  assume "\<exists>e \<in> set (trace (snd (deploy_backend_asg x (asg_start bst)))). is_deploy e"
  then have up: "prepared x \<and> versioned_ok x \<and> latest_ok x"
    using asg_backend_no_upload [of x bst] no_send_no_deploy by blast
  show "S3Write ''backend/latest/backend.zip'' \<in>
           set (before_deploy (trace (snd (deploy_backend_asg x (asg_start bst)))))"
    using up asg_backend_uploaded(2) by blast
  show "s3 (snd (deploy_backend_asg x (asg_start bst))) ''backend/latest/backend.zip'' =
          Some (zip_backend (build x))"
    using up asg_backend_uploaded(1) by blast
qed

lemma failed_target_wait: "fleet_wait 20 1 (deploy_poll failed_target_run) = Exit1"
  by (simp add: failed_target_run_def eval_nat_numeral count_failed_def)

lemma failed_target_wait30: "fleet_wait 30 1 (deploy_poll failed_target_run) = Exit1"
  by (simp add: failed_target_run_def eval_nat_numeral count_failed_def)

theorem C2_current_written_before_deploy_witness:
  "(\<exists>e \<in> set (trace (snd (deploy_frontend_asg failed_target_run (asg_start old_bucket)))).
      is_deploy e) \<and>
   S3Write ''frontend/latest/'' \<in>
     set (before_deploy (trace (snd (deploy_frontend_asg failed_target_run (asg_start old_bucket))))) \<and>
   s3 (snd (deploy_frontend_asg failed_target_run (asg_start old_bucket)))
     ''frontend/latest/index.html'' = Some ''v2'' \<and>
   (\<exists>e \<in> set (trace (snd (deploy_backend_asg failed_target_run (asg_start Map.empty)))).
      is_deploy e) \<and>
   s3 (snd (deploy_backend_asg failed_target_run (asg_start Map.empty)))
     ''backend/latest/backend.zip'' = Some (zip_backend (build failed_target_run))"
proof -
  have f: "\<exists>e \<in> set (trace (snd (deploy_frontend_asg failed_target_run (asg_start old_bucket)))).
      is_deploy e"
    using failed_target_wait by (simp add: asg_defs failed_target_run_def is_deploy_def)
  have b: "\<exists>e \<in> set (trace (snd (deploy_backend_asg failed_target_run (asg_start Map.empty)))).
      is_deploy e"
    using failed_target_wait30 by (simp add: asg_defs failed_target_run_def is_deploy_def)
  have i: "build failed_target_run ''index.html'' = Some ''v2''"
    by (simp add: failed_target_run_def)
  show ?thesis
    using f b i
      C2_current_written_before_deploy [of failed_target_run old_bucket Map.empty]
    by auto
qed

subsection \<open>Publishing and reading back\<close>

text \<open>
  C7 does not hold for the frontend as the specification states it: the publishing step of \<open>empty_fleet_run\<close>
  succeeds on \<open>stale_bucket\<close>, its build has no file \<open>main.0a1b.js\<close>, and reading
  \<open>latest\<close> back still returns that file, left by an earlier build.
\<close>

theorem C7_counterexample:
  "fst (upload_frontend empty_fleet_run (asg_start stale_bucket)) \<and>
   build empty_fleet_run ''main.0a1b.js'' = None \<and>
   s3_fetch_prefix ''frontend/latest/''
     (s3 (snd (upload_frontend empty_fleet_run (asg_start stale_bucket)))) ''main.0a1b.js'' =
     Some ''old bundle''"
  by (simp add: upload_frontend_def Let_def empty_fleet_run_def stale_bucket_def asg_start_def
        s3_fetch_prefix_def s3_sync_def)

text \<open>
  C7, amended. The publishing step succeeds exactly when both transfers succeed. After a
  successful frontend publish, reading \<open>latest\<close> back returns every file of the build
  with its content (next to whatever earlier publishes left there that the build does not
  replace); after a successful backend publish, \<open>latest\<close> holds exactly the archive.
  When the first transfer succeeds and the second fails, the step fails and the versioned
  artifact is in the bucket.
\<close>

theorem C7_publish_roundtrip:
  "fst (upload_frontend x w) = (versioned_ok x \<and> latest_ok x) \<and>
   fst (upload_backend x bw) = (versioned_ok x \<and> latest_ok x) \<and>
   (versioned_ok x \<and> latest_ok x \<longrightarrow>
      (\<forall>f c. build x f = Some c \<longrightarrow>
         s3_fetch_prefix ''frontend/latest/'' (s3 (snd (upload_frontend x w))) f = Some c) \<and>
      s3 (snd (upload_backend x bw)) ''backend/latest/backend.zip'' = Some (zip_backend (build x))) \<and>
   (versioned_ok x \<and> \<not> latest_ok x \<longrightarrow>
      (\<forall>f c. build x f = Some c \<longrightarrow>
         s3_fetch_prefix (''frontend/'' @ timestamp x @ ''/'') (s3 (snd (upload_frontend x w))) f
           = Some c) \<and>
      s3 (snd (upload_backend x bw)) (''backend/backend-'' @ timestamp x @ ''.zip'') =
        Some (zip_backend (build x)))"
proof (intro conjI impI allI)
  show "fst (upload_frontend x w) = (versioned_ok x \<and> latest_ok x)"
    by (rule upload_frontend_ok)
  show "fst (upload_backend x bw) = (versioned_ok x \<and> latest_ok x)"
    by (rule upload_backend_ok)
next
  fix f c
  assume ok: "versioned_ok x \<and> latest_ok x" and b: "build x f = Some c"
  have "s3 (snd (upload_frontend x w)) =
          s3_sync (build x) ''frontend/latest/''
            (s3_sync (build x) (''frontend/'' @ timestamp x @ ''/'') (s3 w))"
    using ok by (simp add: upload_frontend_def Let_def)
  then show "s3_fetch_prefix ''frontend/latest/'' (s3 (snd (upload_frontend x w))) f = Some c"
    using b by (simp only: s3_sync_fetch option.case)
next
  assume ok: "versioned_ok x \<and> latest_ok x"
  then show "s3 (snd (upload_backend x bw)) ''backend/latest/backend.zip'' =
      Some (zip_backend (build x))"
    by (simp add: upload_backend_def Let_def s3_cp_def)
next
  fix f c
  assume ok: "versioned_ok x \<and> \<not> latest_ok x" and b: "build x f = Some c"
  have "s3 (snd (upload_frontend x w)) =
          s3_sync (build x) (''frontend/'' @ timestamp x @ ''/'') (s3 w)"
    using ok by (simp add: upload_frontend_def Let_def)
  then show "s3_fetch_prefix (''frontend/'' @ timestamp x @ ''/'') (s3 (snd (upload_frontend x w))) f
           = Some c"
    using b by (simp only: s3_sync_fetch option.case)
next
  assume ok: "versioned_ok x \<and> \<not> latest_ok x"
  then show "s3 (snd (upload_backend x bw)) (''backend/backend-'' @ timestamp x @ ''.zip'') =
        Some (zip_backend (build x))"
    by (simp add: upload_backend_def Let_def s3_cp_def)
qed

theorem C7_publish_roundtrip_witness:
  "fst (upload_frontend empty_fleet_run (asg_start stale_bucket)) \<and>
   s3_fetch_prefix ''frontend/latest/''
     (s3 (snd (upload_frontend empty_fleet_run (asg_start stale_bucket)))) ''index.html'' =
     Some ''v2'' \<and>
   s3 (snd (upload_backend empty_fleet_run (asg_start Map.empty))) ''backend/latest/backend.zip'' =
     Some (zip_backend (build empty_fleet_run)) \<and>
   \<not> fst (upload_frontend latest_fails_run (asg_start stale_bucket)) \<and>
   s3_fetch_prefix ''frontend/20240115143022/''
     (s3 (snd (upload_frontend latest_fails_run (asg_start stale_bucket)))) ''index.html'' =
     Some ''v2'' \<and>
   s3 (snd (upload_backend latest_fails_run (asg_start Map.empty)))
     ''backend/backend-20240115143022.zip'' = Some (zip_backend (build latest_fails_run))"
proof -
  have a: "versioned_ok empty_fleet_run \<and> latest_ok empty_fleet_run"
    and b: "build empty_fleet_run ''index.html'' = Some ''v2''"
    and c: "versioned_ok latest_fails_run \<and> \<not> latest_ok latest_fails_run"
    and d: "build latest_fails_run ''index.html'' = Some ''v2''"
    and t: "timestamp latest_fails_run = ''20240115143022''"
    by (simp_all add: empty_fleet_run_def latest_fails_run_def)
  show ?thesis
    using a b c d
      C7_publish_roundtrip [of empty_fleet_run "asg_start stale_bucket" "asg_start Map.empty"]
      C7_publish_roundtrip [of latest_fails_run "asg_start stale_bucket" "asg_start Map.empty"]
    by (simp add: t)
qed

subsection \<open>A group without InService instances\<close>

lemma asg_frontend_empty_fleet:
  assumes "prepared x" "versioned_ok x" "latest_ok x" "in_service x = []"
  shows "fst (deploy_frontend_asg x (asg_start st)) = JobSuccess"
    and "trace (snd (deploy_frontend_asg x (asg_start st))) =
      [S3Write (''frontend/'' @ timestamp x @ ''/''), S3Write ''frontend/latest/'',
       Echo ''::warning::No InService instances found in ASG'',
       Echo ''Frontend Deployment Successful!'']"
  using assms by (simp_all add: asg_defs)

lemma asg_backend_empty_fleet:
  assumes "prepared x" "versioned_ok x" "latest_ok x" "in_service x = []"
  shows "fst (deploy_backend_asg x (asg_start st)) = JobSuccess"
    and "trace (snd (deploy_backend_asg x (asg_start st))) =
      [S3Write (''backend/backend-'' @ timestamp x @ ''.zip''), S3Write ''backend/latest/backend.zip'',
       Echo ''::warning::No InService instances found in ASG'',
       Echo ''Backend Deployment Successful!'']"
  using assms by (simp_all add: asg_defs)

lemma asg_frontend_no_send:
  "in_service x = [] \<Longrightarrow> filter is_send (trace (snd (deploy_frontend_asg x (asg_start st)))) = []"
  by (auto simp add: asg_defs is_send_def)

lemma asg_backend_no_send:
  "in_service x = [] \<Longrightarrow> filter is_send (trace (snd (deploy_backend_asg x (asg_start st)))) = []"
  by (auto simp add: asg_defs is_send_def)

text \<open>
  C6. When the Auto Scaling group has no InService instance, a run sends no command to any
  instance (the workflows have no backup step; the deploy and the health step are
  skipped), and when the steps before have succeeded it does not fail: \<open>Get ASG Instance
  IDs\<close> prints its warning, and the job concludes \<open>success\<close>, the only conclusion other
  than \<open>failure\<close> a job has. The trace of such a run holds the two S3 writes of the
  upload step, the warning and the summary.
\<close>

theorem C6_empty_fleet_no_commands:
  assumes "in_service x = []"
  shows "filter is_send (trace (snd (deploy_frontend_asg x (asg_start st)))) = [] \<and>
         filter is_send (trace (snd (deploy_backend_asg x (asg_start bst)))) = [] \<and>
         (prepared x \<and> versioned_ok x \<and> latest_ok x \<longrightarrow>
            fst (deploy_frontend_asg x (asg_start st)) = JobSuccess \<and>
            fst (deploy_backend_asg x (asg_start bst)) = JobSuccess \<and>
            trace (snd (deploy_frontend_asg x (asg_start st))) =
              [S3Write (''frontend/'' @ timestamp x @ ''/''), S3Write ''frontend/latest/'',
               Echo ''::warning::No InService instances found in ASG'',
               Echo ''Frontend Deployment Successful!''])"
  using assms asg_frontend_no_send asg_backend_no_send
    asg_frontend_empty_fleet asg_backend_empty_fleet(1)
  by (intro conjI impI) blast+

theorem C6_empty_fleet_no_commands_witness:
  "in_service empty_fleet_run = [] \<and>
   filter is_send (trace (snd (deploy_frontend_asg empty_fleet_run (asg_start stale_bucket)))) = [] \<and>
   filter is_send (trace (snd (deploy_backend_asg empty_fleet_run (asg_start Map.empty)))) = [] \<and>
   fst (deploy_frontend_asg empty_fleet_run (asg_start stale_bucket)) = JobSuccess \<and>
   fst (deploy_backend_asg empty_fleet_run (asg_start Map.empty)) = JobSuccess \<and>
   trace (snd (deploy_frontend_asg empty_fleet_run (asg_start stale_bucket))) =
     [S3Write ''frontend/20240115143022/'', S3Write ''frontend/latest/'',
      Echo ''::warning::No InService instances found in ASG'',
      Echo ''Frontend Deployment Successful!'']"
proof -
  have a: "in_service empty_fleet_run = []"
    and b: "prepared empty_fleet_run \<and> versioned_ok empty_fleet_run \<and> latest_ok empty_fleet_run"
    and t: "timestamp empty_fleet_run = ''20240115143022''"
    by (simp_all add: empty_fleet_run_def)
  show ?thesis
    using a b C6_empty_fleet_no_commands [OF a, of stale_bucket Map.empty]
    by (simp add: t is_send_def)
qed

subsection \<open>Runs of the single-instance workflows\<close>

text \<open>A run, by cases on the first step that fails.\<close>

lemma design_run_not_prepared:
  "\<not> d_prepared x \<Longrightarrow>
   design_run ok settle url msg x t =
     (JobFailure, snd (rollback_step x \<lparr>tgt = t, dtrace = []\<rparr>))"
  by (simp add: design_defs split: prod.splits)

lemma design_run_backup_failed:
  "d_prepared x \<Longrightarrow> \<not> command_executed (backup_poll x) \<Longrightarrow>
   design_run ok settle url msg x t =
     (JobFailure, snd (rollback_step x
        \<lparr>tgt = t, dtrace = [SendCommand (InstanceIds [d_instance x]) BackupCmd]\<rparr>))"
  by (simp add: design_defs split: prod.splits)

lemma design_run_deploy_failed:
  "d_prepared x \<Longrightarrow> command_executed (backup_poll x) \<Longrightarrow> \<not> ok (d_deploy_poll x) \<Longrightarrow>
   design_run ok settle url msg x t =
     (JobFailure, snd (rollback_step x
        \<lparr>tgt = after_deploy x t,
         dtrace = [SendCommand (InstanceIds [d_instance x]) BackupCmd,
                   SendCommand (InstanceIds [d_instance x]) DeployCmd]\<rparr>))"
  by (simp add: design_defs after_deploy_def split: prod.splits)

lemma design_run_health_failed:
  "d_prepared x \<Longrightarrow> command_executed (backup_poll x) \<Longrightarrow> ok (d_deploy_poll x) \<Longrightarrow>
   \<not> command_executed (health_poll x) \<Longrightarrow>
   design_run ok settle url msg x t =
     (JobFailure, snd (rollback_step x
        \<lparr>tgt = after_deploy x t,
         dtrace = [SendCommand (InstanceIds [d_instance x]) BackupCmd,
                   SendCommand (InstanceIds [d_instance x]) DeployCmd,
                   Sleep settle,
                   SendCommand (InstanceIds [d_instance x]) (HealthCmd 0 url)]\<rparr>))"
  by (simp add: design_defs after_deploy_def split: prod.splits)

lemma design_run_success:
  "d_prepared x \<Longrightarrow> command_executed (backup_poll x) \<Longrightarrow> ok (d_deploy_poll x) \<Longrightarrow>
   command_executed (health_poll x) \<Longrightarrow>
   design_run ok settle url msg x t =
     (JobSuccess,
        \<lparr>tgt = after_deploy x t,
         dtrace = [SendCommand (InstanceIds [d_instance x]) BackupCmd,
                   SendCommand (InstanceIds [d_instance x]) DeployCmd,
                   Sleep settle,
                   SendCommand (InstanceIds [d_instance x]) (HealthCmd 0 url),
                   Echo msg]\<rparr>)"
  by (simp add: design_defs after_deploy_def split: prod.splits)

lemma rollback_step_trace:
  "dtrace (snd (rollback_step x w)) =
     dtrace w @ SendCommand (InstanceIds [d_instance x]) RestoreCmd #
       (if command_executed (restore_poll x) then [Echo ''Rolled back to previous deployment'']
        else [])"
  by (simp add: rollback_step_def Let_def)

lemma rollback_step_tgt:
  "tgt (snd (rollback_step x w)) =
     (if command_executed (restore_poll x) then restore_script (tgt w)
      else restore_failed (restore_left x) (tgt w))"
  by (simp add: rollback_step_def Let_def)

lemma frontend_deploy_ok_const [simp]: "frontend_deploy_ok (\<lambda>i. s) = (s = Success)"
  unfolding frontend_deploy_ok_def
  by (cases s) (simp_all add: eval_nat_numeral)

lemma backend_deploy_ok_failed [simp]: "\<not> backend_deploy_ok (\<lambda>i. Failed)"
  by (simp add: backend_deploy_ok_def eval_nat_numeral)

lemma backend_deploy_ok_success [simp]: "backend_deploy_ok (\<lambda>i. Success)"
  by (simp add: backend_deploy_ok_def eval_nat_numeral)

subsection \<open>Backup before deploy\<close>

text \<open>
  C3. The specification asks, as the design document's own Property 5 does, that a backup
  of the live state exist before the deploy command is dispatched. The backup command
  ends in \<open>|| true\<close> and so reports \<open>Success\<close> whatever its copy did: a full copy
  adds a backup, a copy that made nothing leaves the instance as it was, a copy that
  stopped on the way leaves its part as the newest backup. In the run
  \<open>failed_copy_run\<close> the instance has a live deployment \<open>v1\<close>, the copy makes nothing,
  the deploy command is dispatched all the same and the job concludes \<open>success\<close>; the
  instance runs \<open>v2\<close> and has no backup.
\<close>

theorem C3_deploy_without_backup:
  "backup_script Copied running_v1 = \<lparr>live = Some ''v1'', backups = [''v1'']\<rparr> \<and>
   backup_script NotCopied running_v1 = \<lparr>live = Some ''v1'', backups = []\<rparr> \<and>
   backup_script (PartlyCopied ''part of v1'') running_v1 =
     \<lparr>live = Some ''v1'', backups = [''part of v1'']\<rparr> \<and>
   backup_cp failed_copy_run = NotCopied \<and>
   deploy_frontend failed_copy_run running_v1 =
     (JobSuccess,
      \<lparr>tgt = \<lparr>live = Some ''v2'', backups = []\<rparr>,
       dtrace = [SendCommand (InstanceIds [''i-0fe1'']) BackupCmd,
                 SendCommand (InstanceIds [''i-0fe1'']) DeployCmd,
                 Sleep 10,
                 SendCommand (InstanceIds [''i-0fe1'']) (HealthCmd 0 ''http://localhost/''),
                 Echo ''Frontend deployed successfully'']\<rparr>)"
  by (simp add: deploy_frontend_def design_run_success failed_copy_run_def running_v1_def
        after_deploy_def backup_script_def)

text \<open>What the single-instance workflows do ensure: the backup command is sent, waited for
  and reported \<open>Success\<close> before a deploy command is dispatched, and a backup command
  that does not report \<open>Success\<close> fails the job with no deploy command dispatched. The
  Auto Scaling workflows send no backup command at all.\<close>

lemma asg_frontend_sends_no_backup:
  "SendCommand ts BackupCmd \<notin> set (trace (snd (deploy_frontend_asg x (asg_start st))))"
  by (cases "fleet_wait 20 1 (deploy_poll x)")
     (auto simp add: asg_defs split: list.splits)

lemma asg_backend_sends_no_backup:
  "SendCommand ts BackupCmd \<notin> set (trace (snd (deploy_backend_asg x (asg_start st))))"
  by (cases "fleet_wait 30 1 (deploy_poll x)")
     (auto simp add: asg_defs split: list.splits)

lemma design_backup_before_deploy:
  "((\<exists>e \<in> set (dtrace (snd (design_run ok settle url msg x t))). is_deploy e) \<longrightarrow>
      command_executed (backup_poll x) \<and>
      SendCommand (InstanceIds [d_instance x]) BackupCmd \<in>
        set (before_deploy (dtrace (snd (design_run ok settle url msg x t))))) \<and>
   (\<not> command_executed (backup_poll x) \<longrightarrow>
      fst (design_run ok settle url msg x t) = JobFailure \<and>
      filter is_deploy (dtrace (snd (design_run ok settle url msg x t))) = [])"
proof (cases "d_prepared x")
  case False
  then show ?thesis
    by (simp add: design_run_not_prepared rollback_step_trace is_deploy_def)
next
  case p: True
  show ?thesis
  proof (cases "command_executed (backup_poll x)")
    case False
    with p show ?thesis
      by (simp add: design_run_backup_failed rollback_step_trace is_deploy_def)
  next
    case b: True
    show ?thesis
    proof (cases "ok (d_deploy_poll x)")
      case False
      with p b show ?thesis
        by (simp add: design_run_deploy_failed rollback_step_trace is_deploy_def before_deploy_def)
    next
      case d: True
      show ?thesis
      proof (cases "command_executed (health_poll x)")
        case False
        with p b d show ?thesis
          by (simp add: design_run_health_failed rollback_step_trace is_deploy_def before_deploy_def)
      next
        case True
        with p b d show ?thesis
          by (simp add: design_run_success is_deploy_def before_deploy_def)
      qed
    qed
  qed
qed

subsection \<open>Rollback on failure\<close>

lemma restore_after_backup:
  "backup_cp x = Copied \<Longrightarrow> live t = Some c \<Longrightarrow>
   live (restore_script (after_deploy x t)) = Some c"
  by (simp add: restore_script_def after_deploy_def backup_script_def)

text \<open>A run whose deploy step or health check fails concludes \<open>failure\<close>, sends the
  restore command, and prints its message exactly when that command reports
  \<open>Success\<close>.\<close>

lemma design_failure_restores:
  assumes "d_prepared x" "command_executed (backup_poll x)"
    and "\<not> ok (d_deploy_poll x) \<or> \<not> command_executed (health_poll x)"
  shows "fst (design_run ok settle url msg x t) = JobFailure"
    and "SendCommand (InstanceIds [d_instance x]) RestoreCmd \<in>
           set (dtrace (snd (design_run ok settle url msg x t)))"
    and "(Echo ''Rolled back to previous deployment'' \<in>
           set (dtrace (snd (design_run ok settle url msg x t)))) =
         command_executed (restore_poll x)"
    and "tgt (snd (design_run ok settle url msg x t)) =
           (if command_executed (restore_poll x) then restore_script (after_deploy x t)
            else restore_failed (restore_left x) (after_deploy x t))"
proof -
  consider (d) "\<not> ok (d_deploy_poll x)"
    | (h) "ok (d_deploy_poll x)" "\<not> command_executed (health_poll x)"
    using assms(3) by blast
  then have "fst (design_run ok settle url msg x t) = JobFailure \<and>
     SendCommand (InstanceIds [d_instance x]) RestoreCmd \<in>
           set (dtrace (snd (design_run ok settle url msg x t))) \<and>
     (Echo ''Rolled back to previous deployment'' \<in>
           set (dtrace (snd (design_run ok settle url msg x t)))) =
         command_executed (restore_poll x) \<and>
     tgt (snd (design_run ok settle url msg x t)) =
           (if command_executed (restore_poll x) then restore_script (after_deploy x t)
            else restore_failed (restore_left x) (after_deploy x t))"
  proof cases
    case d
    then show ?thesis
      using assms(1,2)
      by (simp add: design_run_deploy_failed rollback_step_trace rollback_step_tgt)
  next
    case h
    then show ?thesis
      using assms(1,2)
      by (simp add: design_run_health_failed rollback_step_trace rollback_step_tgt)
  qed
  then show "fst (design_run ok settle url msg x t) = JobFailure"
    and "SendCommand (InstanceIds [d_instance x]) RestoreCmd \<in>
           set (dtrace (snd (design_run ok settle url msg x t)))"
    and "(Echo ''Rolled back to previous deployment'' \<in>
           set (dtrace (snd (design_run ok settle url msg x t)))) =
         command_executed (restore_poll x)"
    and "tgt (snd (design_run ok settle url msg x t)) =
           (if command_executed (restore_poll x) then restore_script (after_deploy x t)
            else restore_failed (restore_left x) (after_deploy x t))"
    by blast+
qed

text \<open>
  C5. The specification asks that every run that fails while deploying or verifying
  restore its targets from their backups. The backend workflow of the design document
  restores only after a failure its deploy step detects: a deploy command that is
  \<open>Failed\<close> makes the step fail and the rollback step puts \<open>v1\<close> back, but a deploy
  command that is \<open>TimedOut\<close> at each of the 30 queries passes the step. In the run
  \<open>timed_out_backend_run\<close> the job concludes \<open>success\<close>, no restore command is sent,
  and the instance is left with what the timed-out command wrote, next to the backup of
  \<open>v1\<close> that this run made.
\<close>

theorem C5_timed_out_deploy_not_restored:
  "d_deploy_poll failed_deploy_run 1 = Failed \<and>
   \<not> backend_deploy_ok (d_deploy_poll failed_deploy_run) \<and>
   deploy_backend failed_deploy_run running_v1 =
     (JobFailure,
      \<lparr>tgt = \<lparr>live = Some ''v1'', backups = [''v1'']\<rparr>,
       dtrace = [SendCommand (InstanceIds [''i-0fe1'']) BackupCmd,
                 SendCommand (InstanceIds [''i-0fe1'']) DeployCmd,
                 SendCommand (InstanceIds [''i-0fe1'']) RestoreCmd,
                 Echo ''Rolled back to previous deployment'']\<rparr>) \<and>
   d_deploy_poll timed_out_backend_run 1 = TimedOut \<and>
   d_deploy_poll timed_out_backend_run 30 = TimedOut \<and>
   backend_deploy_ok (d_deploy_poll timed_out_backend_run) \<and>
   deploy_backend timed_out_backend_run running_v1 =
     (JobSuccess,
      \<lparr>tgt = \<lparr>live = Some ''partial'', backups = [''v1'']\<rparr>,
       dtrace = [SendCommand (InstanceIds [''i-0be1'']) BackupCmd,
                 SendCommand (InstanceIds [''i-0be1'']) DeployCmd,
                 Sleep 15,
                 SendCommand (InstanceIds [''i-0be1'']) (HealthCmd 0 ''http://localhost:80/books''),
                 Echo ''Backend deployed successfully'']\<rparr>)"
proof -
  have w: "single_wait 30 1 (d_deploy_poll timed_out_backend_run) = Exhausted"
    by (rule single_wait_no_exit) (simp add: timed_out_backend_run_def)
  have t: "backend_deploy_ok (d_deploy_poll timed_out_backend_run)"
    using w by (simp add: backend_deploy_ok_def)
  have a: "deploy_backend timed_out_backend_run running_v1 =
     (JobSuccess,
      \<lparr>tgt = \<lparr>live = Some ''partial'', backups = [''v1'']\<rparr>,
       dtrace = [SendCommand (InstanceIds [''i-0be1'']) BackupCmd,
                 SendCommand (InstanceIds [''i-0be1'']) DeployCmd,
                 Sleep 15,
                 SendCommand (InstanceIds [''i-0be1'']) (HealthCmd 0 ''http://localhost:80/books''),
                 Echo ''Backend deployed successfully'']\<rparr>)"
    using t
    by (simp add: deploy_backend_def design_run_success timed_out_backend_run_def running_v1_def
          after_deploy_def backup_script_def)
  have b: "deploy_backend failed_deploy_run running_v1 =
     (JobFailure,
      \<lparr>tgt = \<lparr>live = Some ''v1'', backups = [''v1'']\<rparr>,
       dtrace = [SendCommand (InstanceIds [''i-0fe1'']) BackupCmd,
                 SendCommand (InstanceIds [''i-0fe1'']) DeployCmd,
                 SendCommand (InstanceIds [''i-0fe1'']) RestoreCmd,
                 Echo ''Rolled back to previous deployment'']\<rparr>)"
    by (simp add: deploy_backend_def design_run_deploy_failed failed_deploy_run_def running_v1_def
          after_deploy_def backup_script_def rollback_step_def restore_script_def)
  show ?thesis
    using t a b by (simp add: failed_deploy_run_def timed_out_backend_run_def)
qed

text \<open>Two more runs of the frontend workflow whose deploy command is \<open>Failed\<close> and whose
  restore command reports \<open>Success\<close>, so that both print the rollback message. When the
  backup copy stopped on the way, the restore puts that part in place of the live
  directory; when the backup copy made nothing, the restore finds no backup and the
  instance keeps what the failed deploy command wrote.\<close>

lemma partial_backup_restored:
  "deploy_frontend partial_copy_run running_v1 =
     (JobFailure,
      \<lparr>tgt = \<lparr>live = Some ''part of v1'', backups = [''part of v1'']\<rparr>,
       dtrace = [SendCommand (InstanceIds [''i-0fe1'']) BackupCmd,
                 SendCommand (InstanceIds [''i-0fe1'']) DeployCmd,
                 SendCommand (InstanceIds [''i-0fe1'']) RestoreCmd,
                 Echo ''Rolled back to previous deployment'']\<rparr>)"
  by (simp add: deploy_frontend_def design_run_deploy_failed partial_copy_run_def
        failed_deploy_run_def running_v1_def after_deploy_def backup_script_def
        rollback_step_def restore_script_def)

lemma rolled_back_without_backup:
  "deploy_frontend no_copy_run running_v1 =
     (JobFailure,
      \<lparr>tgt = \<lparr>live = Some ''partial'', backups = []\<rparr>,
       dtrace = [SendCommand (InstanceIds [''i-0fe1'']) BackupCmd,
                 SendCommand (InstanceIds [''i-0fe1'']) DeployCmd,
                 SendCommand (InstanceIds [''i-0fe1'']) RestoreCmd,
                 Echo ''Rolled back to previous deployment'']\<rparr>)"
  by (simp add: deploy_frontend_def design_run_deploy_failed no_copy_run_def
        failed_deploy_run_def running_v1_def after_deploy_def backup_script_def
        rollback_step_def restore_script_def)

text \<open>The Auto Scaling workflows send no restore command at all.\<close>

lemma asg_frontend_sends_no_restore:
  "SendCommand ts RestoreCmd \<notin> set (trace (snd (deploy_frontend_asg x (asg_start st))))"
  by (cases "fleet_wait 20 1 (deploy_poll x)")
     (auto simp add: asg_defs split: list.splits)

lemma asg_backend_sends_no_restore:
  "SendCommand ts RestoreCmd \<notin> set (trace (snd (deploy_backend_asg x (asg_start st))))"
  by (cases "fleet_wait 30 1 (deploy_poll x)")
     (auto simp add: asg_defs split: list.splits)

subsection \<open>The health probe\<close>


lemma asg_backend_reaches_health:
  assumes "prepared x" "versioned_ok x" "latest_ok x" "in_service x = i # rest"
    and "fleet_wait 30 1 (deploy_poll x) \<noteq> Exit1"
  shows "deploy_backend_asg x (asg_start st) =
     (JobSuccess,
      \<lparr>s3 = s3_cp (zip_backend (build x)) ''backend/latest/backend.zip''
              (s3_cp (zip_backend (build x)) (''backend/backend-'' @ timestamp x @ ''.zip'') st),
       deploy_ref = Some (''backend/backend-'' @ timestamp x @ ''.zip''),
       instance_ids = i # rest, instance_count = Some (Suc (length rest)),
       trace = [S3Write (''backend/backend-'' @ timestamp x @ ''.zip''),
                S3Write ''backend/latest/backend.zip'',
                SendCommand (AsgTag (asg_name x)) DeployCmd,
                RunnerCurl ''http://localhost/books'',
                SendCommand (InstanceIds [i]) (FleetProbeCmd 5 (runner_code x)),
                Echo ''Backend Deployment Successful!'']\<rparr>)"
  using assms by (cases "fleet_wait 30 1 (deploy_poll x)") (simp_all add: asg_defs)

text \<open>In the single-instance workflows a failed probe ends as a failed deploy command
  does: the job concludes \<open>failure\<close> and the same rollback step runs on the same state
  of the instance.\<close>

lemma failed_probe_like_failed_deploy:
  assumes "d_prepared x" "command_executed (backup_poll x)"
  shows "\<not> ok (d_deploy_poll x) \<Longrightarrow>
     design_run ok settle url msg x t =
       (JobFailure, snd (rollback_step x
          \<lparr>tgt = after_deploy x t,
           dtrace = [SendCommand (InstanceIds [d_instance x]) BackupCmd,
                     SendCommand (InstanceIds [d_instance x]) DeployCmd]\<rparr>))"
    and "ok (d_deploy_poll x) \<Longrightarrow> \<not> command_executed (health_poll x) \<Longrightarrow>
     design_run ok settle url msg x t =
       (JobFailure, snd (rollback_step x
          \<lparr>tgt = after_deploy x t,
           dtrace = [SendCommand (InstanceIds [d_instance x]) BackupCmd,
                     SendCommand (InstanceIds [d_instance x]) DeployCmd,
                     Sleep settle,
                     SendCommand (InstanceIds [d_instance x]) (HealthCmd 0 url)]\<rparr>))"
  using assms by (simp_all add: design_run_deploy_failed design_run_health_failed)



subsection \<open>The environment file of the backend\<close>

lemma cp_env_app: "app (cp_env cp_ok fs) = app fs"
  by (simp add: cp_env_def split: option.splits)

lemma stage_backend_app: "app (stage_backend z deps cp_ok fs) = app fs"
  by (simp add: stage_backend_def npm_ci_def cp_env_app unzip_new_def split: option.splits)

lemma stage_backend_new:
  "app_new (stage_backend z deps cp_ok fs) =
     Some (\<lambda>p. if prefix ''node_modules/'' p then deps p
               else if p = ''.env'' \<and> cp_ok \<and> env_file fs \<noteq> None then env_file fs
               else z p)"
  by (auto simp add: stage_backend_def npm_ci_def cp_env_def unzip_new_def env_file_def
        split: option.splits)

lemma deploy_backend_script_app:
  "app (deploy_backend_script z deps cp_ok fs) = app_new (stage_backend z deps cp_ok fs)"
  by (simp add: deploy_backend_script_def mv_new_app_def mv_app_old_def)

text \<open>The archive the backend workflow publishes has no file \<open>.env\<close> at its top. When the
  copy of \<open>.env\<close> succeeds, the live directory after the command holds the \<open>.env\<close> the
  instance had before (none if it had none), the installed \<open>node_modules\<close>, and
  otherwise exactly the files of the packaged source.\<close>

lemma env_file_kept_when_copied:
  "zip_backend src ''.env'' = None \<and>
   (\<exists>a. app (deploy_backend_script (zip_backend src) deps True fs) = Some a \<and>
        (\<forall>p. a p = (if p = ''.env'' then env_file fs
                     else if prefix ''node_modules/'' p then deps p
                     else src p))) \<and>
   env_file (deploy_backend_script (zip_backend src) deps True fs) = env_file fs"
proof -
  have z: "zip_backend src ''.env'' = None"
    by (simp add: zip_backend_def)
  have n: "app (deploy_backend_script (zip_backend src) deps True fs) =
     Some (\<lambda>p. if p = ''.env'' then env_file fs
               else if prefix ''node_modules/'' p then deps p
               else src p)"
    unfolding deploy_backend_script_app stage_backend_new
    by (auto simp add: zip_backend_def)
  have e: "env_file (deploy_backend_script (zip_backend src) deps True fs) = env_file fs"
    by (simp add: env_file_def [of "deploy_backend_script (zip_backend src) deps True fs"] n)
  show ?thesis
    using z n e by simp
qed


subsection \<open>One run of a concurrency group at a time\<close>

lemma running_cancel_waiting: "running (map (cancel_state Waiting) rs) = running rs"
  by (induction rs) (simp_all add: running_def cancel_state_def)

lemma running_cancel_running: "running (map (cancel_state Running) rs) = []"
  by (induction rs) (simp_all add: running_def cancel_state_def)

lemma running_append: "running (rs @ ss) = running rs @ running ss"
  by (simp add: running_def)


lemma running_start_waiting:
  "running rs = [] \<Longrightarrow> length (running (start_waiting rs)) \<le> 1"
proof (induction rs)
  case Nil
  then show ?case by (simp add: running_def)
next
  case (Cons r rs)
  then have r: "snd r \<noteq> Running" and rs: "running rs = []"
    by (simp_all add: running_def split: if_splits)
  show ?case
  proof (cases "snd r = Waiting")
    case True
    then show ?thesis using rs by (simp add: running_def)
  next
    case False
    then show ?thesis using r Cons.IH [OF rs] by (simp add: running_def)
  qed
qed

lemma running_single:
  assumes "length (running rs) \<le> 1" "(rid, Running) \<in> set rs"
  shows "running rs = [(rid, Running)]"
proof -
  have m: "(rid, Running) \<in> set (running rs)"
    using assms(2) by (simp add: running_def)
  show ?thesis
  proof (cases "running rs")
    case Nil
    with m show ?thesis by simp
  next
    case (Cons a as)
    with assms(1) have "as = []" by simp
    with Cons m show ?thesis by simp
  qed
qed

lemma running_finish_all:
  "(\<And>r. r \<in> set rs \<Longrightarrow> snd r = Running \<Longrightarrow> r = (rid, Running)) \<Longrightarrow>
   running (map (\<lambda>r. if r = (rid, Running) then (rid, Finished) else r) rs) = []"
proof (induction rs)
  case Nil
  then show ?case by (simp add: running_def)
next
  case (Cons a rs)
  have t: "running (map (\<lambda>r. if r = (rid, Running) then (rid, Finished) else r) rs) = []"
    using Cons.prems by (intro Cons.IH) simp_all
  have h: "snd (if a = (rid, Running) then (rid, Finished) else a) \<noteq> Running"
    using Cons.prems [of a] by auto
  show ?case
    using t h by (simp add: running_def)
qed

lemma running_finish_map:
  assumes "running rs = [(rid, Running)]"
  shows "running (map (\<lambda>r. if r = (rid, Running) then (rid, Finished) else r) rs) = []"
proof (rule running_finish_all)
  fix r assume "r \<in> set rs" "snd r = Running"
  then have "r \<in> set (running rs)" by (simp add: running_def)
  with assms show "r = (rid, Running)" by simp
qed

lemma trigger_single_flight:
  assumes "length (running rs) \<le> 1"
  shows "length (running (trigger cfg rid rs)) \<le> 1"
proof (cases "running rs = []")
  case True
  then show ?thesis by (simp add: trigger_def running_append) (simp add: running_def)
next
  case False
  show ?thesis
  proof (cases "cancel_in_progress cfg")
    case True
    have "running (map (cancel_state Waiting) (map (cancel_state Running) rs)) = []"
      by (simp only: running_cancel_waiting running_cancel_running)
    then show ?thesis
      using False True by (simp add: trigger_def running_append) (simp add: running_def)
  next
    case c: False
    have "running (map (cancel_state Waiting) rs @ [(rid, Waiting)]) = running rs"
      by (simp add: running_append running_cancel_waiting) (simp add: running_def)
    then show ?thesis
      using False c assms by (simp add: trigger_def)
  qed
qed

lemma finish_single_flight:
  assumes "length (running rs) \<le> 1"
  shows "length (running (finish rid rs)) \<le> 1"
proof (cases "(rid, Running) \<in> set rs")
  case True
  then have "running rs = [(rid, Running)]"
    using assms by (rule running_single [rotated])
  then have "running (map (\<lambda>r. if r = (rid, Running) then (rid, Finished) else r) rs) = []"
    by (rule running_finish_map)
  then have "length (running (start_waiting
      (map (\<lambda>r. if r = (rid, Running) then (rid, Finished) else r) rs))) \<le> 1"
    by (rule running_start_waiting)
  with True show ?thesis by (simp add: finish_def)
next
  case False
  with assms show ?thesis by (simp add: finish_def)
qed

lemma schedule_single_flight:
  "length (running rs) \<le> 1 \<Longrightarrow> length (running (schedule cfg es rs)) \<le> 1"
proof (induction es arbitrary: rs)
  case Nil
  then show ?case by simp
next
  case (Cons e es)
  show ?case
  proof (cases e)
    case (Trigger rid)
    have "length (running (trigger cfg rid rs)) \<le> 1"
      using Cons.prems by (rule trigger_single_flight)
    then have "length (running (schedule cfg es (trigger cfg rid rs))) \<le> 1"
      by (rule Cons.IH)
    with Trigger show ?thesis by simp
  next
    case (Finish rid)
    have "length (running (finish rid rs)) \<le> 1"
      using Cons.prems by (rule finish_single_flight)
    then have "length (running (schedule cfg es (finish rid rs))) \<le> 1"
      by (rule Cons.IH)
    with Finish show ?thesis by simp
  qed
qed

lemma trigger_while_running:
  assumes "\<not> cancel_in_progress cfg" "running rs \<noteq> []"
  shows "running (trigger cfg rid rs) = running rs \<and>
     last (trigger cfg rid rs) = (rid, Waiting) \<and>
     (\<forall>r. (r, Waiting) \<in> set rs \<longrightarrow> (r, CancelledRun) \<in> set (trigger cfg rid rs))"
proof -
  have t: "trigger cfg rid rs = map (cancel_state Waiting) rs @ [(rid, Waiting)]"
    using assms by (simp add: trigger_def)
  have a: "running (trigger cfg rid rs) = running rs"
    unfolding t by (simp add: running_append running_cancel_waiting) (simp add: running_def)
  have b: "last (trigger cfg rid rs) = (rid, Waiting)"
    unfolding t by simp
  have c: "(r, CancelledRun) \<in> set (trigger cfg rid rs)" if "(r, Waiting) \<in> set rs" for r
  proof -
    have "cancel_state Waiting (r, Waiting) = (r, CancelledRun)"
      by (simp add: cancel_state_def)
    then have "(r, CancelledRun) \<in> cancel_state Waiting ` set rs"
      using that by (metis imageI)
    then show ?thesis unfolding t by simp
  qed
  from a b c show ?thesis by blast
qed

text \<open>
  C8. For the concurrency groups of both deploy workflows, after any sequence of triggers
  and finished runs at most one run of the group is running. A trigger while a run is
  running leaves the running runs as they are (the active run is not cancelled and the new
  run does not start): the new run waits, and a run that was waiting before is dropped.
\<close>

theorem C8_single_flight:
  "\<forall>cfg \<in> {deploy_frontend_concurrency, deploy_backend_concurrency}.
     length (running (schedule cfg es [])) \<le> 1 \<and>
     (running rs \<noteq> [] \<longrightarrow>
        running (trigger cfg rid rs) = running rs \<and>
        last (trigger cfg rid rs) = (rid, Waiting) \<and>
        (\<forall>r. (r, Waiting) \<in> set rs \<longrightarrow> (r, CancelledRun) \<in> set (trigger cfg rid rs)))"
proof -
  have s: "length (running (schedule cfg es [])) \<le> 1" for cfg
    by (rule schedule_single_flight) (simp add: running_def)
  have f: "\<not> cancel_in_progress deploy_frontend_concurrency"
    and b: "\<not> cancel_in_progress deploy_backend_concurrency"
    by (simp_all add: deploy_frontend_concurrency_def deploy_backend_concurrency_def)
  show ?thesis
    using s trigger_while_running [OF f] trigger_while_running [OF b] by blast
qed

theorem C8_single_flight_witness:
  "schedule deploy_frontend_concurrency [Trigger 1, Trigger 2, Trigger 3, Finish 1] [] =
     [(1, Finished), (2, CancelledRun), (3, Running)] \<and>
   length (running (schedule deploy_frontend_concurrency
     [Trigger 1, Trigger 2, Trigger 3, Finish 1] [])) \<le> 1 \<and>
   running [(1, Running), (2, Waiting)] \<noteq> [] \<and>
   running (trigger deploy_frontend_concurrency 3 [(1, Running), (2, Waiting)]) =
     running [(1, Running), (2, Waiting)] \<and>
   last (trigger deploy_frontend_concurrency 3 [(1, Running), (2, Waiting)]) = (3, Waiting) \<and>
   (2, CancelledRun) \<in> set (trigger deploy_frontend_concurrency 3 [(1, Running), (2, Waiting)])"
proof -
  have a: "schedule deploy_frontend_concurrency [Trigger 1, Trigger 2, Trigger 3, Finish 1] [] =
     [(1, Finished), (2, CancelledRun), (3, Running)]"
    by (simp add: deploy_frontend_concurrency_def trigger_def finish_def running_def
          cancel_state_def)
  have r: "running [(1::nat, Running), (2, Waiting)] \<noteq> []"
    by (simp add: running_def)
  have w: "(2::nat, Waiting) \<in> set [(1, Running), (2, Waiting)]"
    by simp
  have c: "deploy_frontend_concurrency \<in> {deploy_frontend_concurrency, deploy_backend_concurrency}"
    by simp
  note th = C8_single_flight [of "[Trigger 1, Trigger 2, Trigger 3, Finish 1]"
        "[(1, Running), (2, Waiting)]" 3, THEN bspec, OF c]
  show ?thesis
    using a r w th by blast
qed

end
